theory Spec2Isabelle
  imports
    Complex_Main
    "HOL-Library.Word"
    "HOL-Library.Multiset"
    "HOL-Library.Char_ord"
    "HOL-Library.List_Lexorder"
    "HOL-Library.Product_Lexorder"
begin

section \<open>DeepCare: the notebook's tables and cleaners\<close>

text \<open>
  The notebook \<^verbatim>\<open>deepcare_code.ipynb\<close> is a sequence of PySpark cells. A DataFrame is
  modelled as the list of its rows, a row as a record with one field per column, and a
  nullable column as an \<open>option\<close> (\<open>None\<close> is SQL \<open>NULL\<close>). The column types are the
  ones the notebook prints for its three inputs: Spark \<open>int\<close> and \<open>long\<close> columns are
  \<open>int\<close>, \<open>double\<close> columns are idealised as \<open>real\<close> (no claim below depends on a
  floating-point result), \<open>string\<close> columns are \<open>string\<close>, and a timestamp is the
  number of minutes since the epoch.
\<close>

subsection \<open>The three input tables\<close>

text \<open>
  The type of the \<open>drop_off\<close> column is the one the reader infers from the file, and the
  visits cleaner casts the column, so a cell of it is kept as it is read: a whole number
  when the column is read as an integer column (\<open>int\<close> or \<open>bigint\<close>), the text of the cell
  when the column is read as any other type.
\<close>

datatype label = Whole int | Other string

record demo_row =
  patient_id :: "int option"
  age :: "int option"
  gender :: "string option"
  zipcode :: "int option"
  insurance :: "string option"
  marital_status :: "string option"
  education_level :: "string option"
  employment_status :: "string option"
  chronic_conditions :: "int option"
  has_mobile_app :: "string option"
  language_preference :: "string option"
  avg_monthly_income :: "real option"

record visits_row =
  patient_id :: "int option"
  num_visits :: "int option"
  total_spent :: "real option"
  time_in_waiting :: "real option"
  visit_type :: "string option"
  appointment_day :: "string option"
  department :: "string option"
  satisfaction_score :: "int option"
  doctor_assigned :: "string option"
  visit_duration :: "real option"
  prescription_given :: "string option"
  followup_recommended :: "string option"
  drop_off :: "label option"

record logs_row =
  department :: "string option"
  event :: "string option"
  log_type :: "string option"
  patient_id :: "int option"
  staff_on_duty :: "string option"
  timestamp :: "int option"

subsection \<open>Column primitives of the library\<close>

text \<open>
  \<^verbatim>\<open>fillna({c: v})\<close> on one column whose type matches the replacement: a null becomes
  \<open>v\<close>, every other value stays.
\<close>

definition fillna :: "'a \<Rightarrow> 'a option \<Rightarrow> 'a option" where
  "fillna v x = (case x of None \<Rightarrow> Some v | Some y \<Rightarrow> Some y)"

text \<open>
  \<^verbatim>\<open>col.isin(a, b)\<close> and \<^verbatim>\<open>col > n\<close> are three-valued: on a null they are null, and a
  \<^verbatim>\<open>when\<close> whose condition is null does not fire. \<open>is_true\<close> reads such a condition the
  way \<^verbatim>\<open>when\<close> and \<^verbatim>\<open>filter\<close> do.
\<close>

definition isin :: "'a option \<Rightarrow> 'a list \<Rightarrow> bool option" where
  "isin x vs = map_option (\<lambda>y. y \<in> set vs) x"

definition gt :: "int option \<Rightarrow> int \<Rightarrow> bool option" where
  "gt x n = map_option (\<lambda>y. y > n) x"

definition eq_lit :: "'a option \<Rightarrow> 'a \<Rightarrow> bool option" where
  "eq_lit x v = map_option (\<lambda>y. y = v) x"

definition eq_col :: "'a option \<Rightarrow> 'a option \<Rightarrow> bool option" where
  "eq_col x y = (case (x, y) of (Some a, Some b) \<Rightarrow> Some (a = b) | _ \<Rightarrow> None)"

definition is_true :: "bool option \<Rightarrow> bool" where
  "is_true c = (c = Some True)"

text \<open>
  \<^verbatim>\<open>mean(c)\<close> skips nulls and is null when no value is left.
\<close>

definition non_null :: "'a option list \<Rightarrow> 'a list" where
  "non_null xs = List.map_filter (\<lambda>x. x) xs"

definition mean :: "real option list \<Rightarrow> real option" where
  "mean xs =
     (let ys = non_null xs
      in if ys = [] then None else Some (sum_list ys / real (length ys)))"

text \<open>
  The failures of the library calls the notebook makes, once the files are read:
  \<^verbatim>\<open>fillna\<close> rejects a replacement that is \<^verbatim>\<open>None\<close>, which is what the mean of a
  column without any value is; the one-hot encoder, which drops the last category,
  rejects a column that has a single category, and rejects an index that is not below
  the number of categories it was fitted with.
\<close>

datatype error = UnsupportedFillValue | TooFewDistinctValues | InvalidCategoryIndex

text \<open>
  \<^verbatim>\<open>cast("int")\<close> of a 64-bit whole number keeps its low 32 bits, read as a signed
  number.
\<close>

definition cast_long_to_int :: "int \<Rightarrow> int" where
  "cast_long_to_int x = sint (word_of_int x :: 32 word)"

subsection \<open>Demographics cleaner\<close>

definition categorical_demo :: "demo_row \<Rightarrow> demo_row" where
  "categorical_demo r =
     r\<lparr> gender := fillna ''Unknown'' (gender r),
        insurance := fillna ''Unknown'' (insurance r),
        marital_status := fillna ''Unknown'' (marital_status r),
        education_level := fillna ''Unknown'' (education_level r),
        employment_status := fillna ''Unknown'' (employment_status r),
        language_preference := fillna ''Unknown'' (language_preference r) \<rparr>"

definition standardize_gender :: "string option \<Rightarrow> string option" where
  "standardize_gender g =
     (if is_true (isin g [''M'', ''Male'']) then Some ''Male''
      else if is_true (isin g [''F'', ''Female'']) then Some ''Female''
      else Some ''Other'')"

definition cap_chronic_conditions :: "int option \<Rightarrow> int option" where
  "cap_chronic_conditions c = (if is_true (gt c 5) then Some 5 else c)"

definition clean_demo_row :: "real \<Rightarrow> demo_row \<Rightarrow> demo_row" where
  "clean_demo_row income_mean r0 =
     (let r1 = r0\<lparr> avg_monthly_income := fillna income_mean (avg_monthly_income r0) \<rparr>;
          r2 = categorical_demo r1;
          r3 = r2\<lparr> gender := standardize_gender (gender r2) \<rparr>
      in r3\<lparr> chronic_conditions := cap_chronic_conditions (chronic_conditions r3) \<rparr>)"

definition preprocess_demographics :: "demo_row list \<Rightarrow> error + demo_row list" where
  "preprocess_demographics df_demo =
     (case mean (map avg_monthly_income df_demo) of
        None \<Rightarrow> Inl UnsupportedFillValue
      | Some income_mean \<Rightarrow> Inr (map (clean_demo_row income_mean) df_demo))"

subsection \<open>Visits cleaner\<close>

text \<open>
  The \<^verbatim>\<open>fillna\<close> dictionary names six columns; the others are not touched. In
  \<open>drop_off\<close> a null becomes the 0 of the column's type, whose cast is 0.

  The final \<^verbatim>\<open>cast("int")\<close> of \<open>drop_off\<close> keeps the low 32 bits of a cell of an integer
  column. What it makes of a cell of a column of another type (a decimal, a text) is the
  library's conversion of that type, null where the cell does not convert; it is the
  argument \<open>cast_other\<close> of the cleaner. The column is an integer column afterwards.
\<close>

definition cast_int_col :: "(string \<Rightarrow> int option) \<Rightarrow> label option \<Rightarrow> label option" where
  "cast_int_col cast_other x =
     (case x of
        None \<Rightarrow> None
      | Some (Whole n) \<Rightarrow> Some (Whole (cast_long_to_int n))
      | Some (Other s) \<Rightarrow> map_option Whole (cast_other s))"

definition clean_visits_row :: "(string \<Rightarrow> int option) \<Rightarrow> visits_row \<Rightarrow> visits_row" where
  "clean_visits_row cast_other r0 =
     (let r1 = r0\<lparr> total_spent := fillna 0 (total_spent r0),
                    visit_duration := fillna 0 (visit_duration r0),
                    visit_type := fillna ''Unknown'' (visit_type r0),
                    visits_row.department := fillna ''Unknown'' (visits_row.department r0),
                    appointment_day := fillna ''Unknown'' (appointment_day r0),
                    drop_off := fillna (Whole 0) (drop_off r0) \<rparr>
      in r1\<lparr> drop_off := cast_int_col cast_other (drop_off r1) \<rparr>)"

definition preprocess_visits ::
  "(string \<Rightarrow> int option) \<Rightarrow> visits_row list \<Rightarrow> visits_row list" where
  "preprocess_visits cast_other df_visits = map (clean_visits_row cast_other) df_visits"

subsection \<open>Logs: casts and per-patient aggregation\<close>

text \<open>
  The XML reader infers \<open>patient_id\<close> as a 64-bit \<open>long\<close>, which \<^verbatim>\<open>cast("int")\<close> cuts to
  32 bits. \<^verbatim>\<open>to_timestamp\<close> finds a column that is a timestamp already and returns it.
\<close>

definition to_timestamp :: "int option \<Rightarrow> int option" where
  "to_timestamp t = t"

definition preprocess_logs :: "logs_row list \<Rightarrow> logs_row list" where
  "preprocess_logs df_logs =
     map (\<lambda>r. r\<lparr> logs_row.patient_id := map_option cast_long_to_int (logs_row.patient_id r),
                  timestamp := to_timestamp (timestamp r) \<rparr>) df_logs"

text \<open>
  \<^verbatim>\<open>groupBy("patient_id")\<close> makes one group for each distinct key, null included. The
  groups come in no promised order; the model lists them by first occurrence.
\<close>

definition group_keys :: "logs_row list \<Rightarrow> int option list" where
  "group_keys df_logs = remdups (map logs_row.patient_id df_logs)"

definition group_of :: "logs_row list \<Rightarrow> int option \<Rightarrow> logs_row list" where
  "group_of df_logs k = filter (\<lambda>r. logs_row.patient_id r = k) df_logs"

text \<open>
  \<^verbatim>\<open>count("*")\<close> counts rows, \<^verbatim>\<open>count(when(c, True))\<close> the rows where \<open>c\<close> is true,
  \<^verbatim>\<open>countDistinct\<close> the distinct non-null values, and \<^verbatim>\<open>max\<close> is the largest non-null
  value, null when there is none.
\<close>

definition count_star :: "'a list \<Rightarrow> int" where
  "count_star g = int (length g)"

definition count_when :: "('a \<Rightarrow> bool option) \<Rightarrow> 'a list \<Rightarrow> int" where
  "count_when c g = int (length (filter (\<lambda>r. is_true (c r)) g))"

definition countDistinct :: "'b option list \<Rightarrow> int" where
  "countDistinct xs = int (length (remdups (non_null xs)))"

definition spark_max :: "int option list \<Rightarrow> int option" where
  "spark_max xs = (case non_null xs of [] \<Rightarrow> None | y # ys \<Rightarrow> Some (fold max ys y))"

record log_features_row =
  patient_id :: "int option"
  log_count :: "int option"
  critical_logs :: "int option"
  unique_events :: "int option"
  most_recent_department :: "string option"

record latest_logs_row =
  patient_id :: "int option"
  latest_log_time :: "int option"

record latest_department_row =
  patient_id :: "int option"
  most_recent_department :: "string option"

text \<open>
  An equi-join on \<open>patient_id\<close> pairs two rows when both keys are non-null and equal.
\<close>

definition key_match :: "int option \<Rightarrow> int option \<Rightarrow> bool" where
  "key_match a b = is_true (eq_col a b)"

definition latest_logs :: "logs_row list \<Rightarrow> latest_logs_row list" where
  "latest_logs df_logs =
     map (\<lambda>k. \<lparr> latest_logs_row.patient_id = k,
                 latest_log_time = spark_max (map timestamp (group_of df_logs k)) \<rparr>)
       (group_keys df_logs)"

text \<open>
  \<^verbatim>\<open>dropDuplicates(["patient_id"])\<close> keeps one row for each key, which one is not
  promised; the model keeps the first.
\<close>

fun dropDuplicates :: "latest_department_row list \<Rightarrow> latest_department_row list" where
  "dropDuplicates [] = []"
| "dropDuplicates (r # rs) =
     r # dropDuplicates
           (filter (\<lambda>s. latest_department_row.patient_id s \<noteq> latest_department_row.patient_id r) rs)"

definition latest_department :: "logs_row list \<Rightarrow> latest_department_row list" where
  "latest_department df_logs =
     dropDuplicates
       (map (\<lambda>(l, m). \<lparr> latest_department_row.patient_id = logs_row.patient_id l,
                         latest_department_row.most_recent_department = logs_row.department l \<rparr>)
          (filter (\<lambda>(l, m). is_true (eq_col (timestamp l) (latest_log_time m)))
             (concat (map (\<lambda>l. map (\<lambda>m. (l, m))
                              (filter (\<lambda>m. key_match (logs_row.patient_id l)
                                             (latest_logs_row.patient_id m))
                                 (latest_logs df_logs)))
                        df_logs))))"

definition agg_log_features :: "logs_row list \<Rightarrow> int option \<Rightarrow> log_features_row" where
  "agg_log_features df_logs k =
     (let g = group_of df_logs k
      in \<lparr> log_features_row.patient_id = k,
           log_count = Some (count_star g),
           critical_logs = Some (count_when (\<lambda>r. eq_lit (log_type r) ''critical'') g),
           unique_events = Some (countDistinct (map event g)),
           log_features_row.most_recent_department = None \<rparr>)"

text \<open>
  The left join with \<open>latest_department\<close> keeps every feature row: once for each
  matching department row, once with a null department when there is none.
\<close>

definition join_latest_department ::
  "latest_department_row list \<Rightarrow> log_features_row \<Rightarrow> log_features_row list" where
  "join_latest_department ld f =
     (case filter (\<lambda>d. key_match (log_features_row.patient_id f)
                         (latest_department_row.patient_id d)) ld of
        [] \<Rightarrow> [f]
      | ds \<Rightarrow> map (\<lambda>d. f\<lparr> log_features_row.most_recent_department :=
                            latest_department_row.most_recent_department d \<rparr>) ds)"

definition fill_log_features :: "log_features_row \<Rightarrow> log_features_row" where
  "fill_log_features f =
     f\<lparr> log_count := fillna 0 (log_count f),
        critical_logs := fillna 0 (critical_logs f),
        unique_events := fillna 0 (unique_events f),
        log_features_row.most_recent_department :=
          fillna ''Unknown'' (log_features_row.most_recent_department f) \<rparr>"

definition df_log_features :: "logs_row list \<Rightarrow> log_features_row list" where
  "df_log_features df_logs =
     map fill_log_features
       (concat (map (join_latest_department (latest_department df_logs))
                  (map (agg_log_features df_logs) (group_keys df_logs))))"

subsection \<open>Integration\<close>

text \<open>
  A joined row carries the columns of both sides; the model keeps the demographics row
  and the visits row whole, and the join key is the \<open>patient_id\<close> they share.
\<close>

record patient_row =
  demo :: demo_row
  visit :: visits_row

record final_row = patient_row +
  log_count :: "int option"
  critical_logs :: "int option"
  unique_events :: "int option"
  most_recent_department :: "string option"

definition patient_id_of :: "'a patient_row_scheme \<Rightarrow> int option" where
  "patient_id_of p = demo_row.patient_id (demo p)"

definition df_patient :: "demo_row list \<Rightarrow> visits_row list \<Rightarrow> patient_row list" where
  "df_patient df_demo df_visits =
     concat (map (\<lambda>d. map (\<lambda>v. \<lparr> demo = d, visit = v \<rparr>)
                        (filter (\<lambda>v. key_match (demo_row.patient_id d) (visits_row.patient_id v))
                           df_visits))
               df_demo)"

definition with_log_features :: "patient_row \<Rightarrow> log_features_row option \<Rightarrow> final_row" where
  "with_log_features p f =
     \<lparr> demo = demo p, visit = visit p,
       log_count = Option.bind f log_features_row.log_count,
       critical_logs = Option.bind f log_features_row.critical_logs,
       unique_events = Option.bind f log_features_row.unique_events,
       most_recent_department = Option.bind f log_features_row.most_recent_department \<rparr>"

definition join_log_features :: "log_features_row list \<Rightarrow> patient_row \<Rightarrow> final_row list" where
  "join_log_features lf p =
     (case filter (\<lambda>f. key_match (patient_id_of p) (log_features_row.patient_id f)) lf of
        [] \<Rightarrow> [with_log_features p None]
      | fs \<Rightarrow> map (\<lambda>f. with_log_features p (Some f)) fs)"

definition fill_final :: "final_row \<Rightarrow> final_row" where
  "fill_final r =
     r\<lparr> log_count := fillna 0 (log_count r),
        critical_logs := fillna 0 (critical_logs r),
        unique_events := fillna 0 (unique_events r),
        most_recent_department := fillna ''Unknown'' (most_recent_department r) \<rparr>"

definition df_final :: "demo_row list \<Rightarrow> visits_row list \<Rightarrow> logs_row list \<Rightarrow> final_row list" where
  "df_final df_demo df_visits df_logs =
     map fill_final
       (concat (map (join_log_features (df_log_features df_logs))
                  (df_patient df_demo df_visits)))"

text \<open>
  The cells in the order the notebook runs them. The three cleaners are called on the
  files first. The integration cell then assigns \<open>df_demo\<close>, \<open>df_visits\<close> and \<open>df_logs\<close>
  again, from the same files, repeats the two casts of the logs, and joins these.
\<close>

definition notebook_df_final ::
  "(string \<Rightarrow> int option) \<Rightarrow> demo_row list \<Rightarrow> visits_row list \<Rightarrow> logs_row list
     \<Rightarrow> error + final_row list" where
  "notebook_df_final cast_other patient_demographics patient_visits hospital_logs =
     (case preprocess_demographics patient_demographics of
        Inl e \<Rightarrow> Inl e
      | Inr df_demo \<Rightarrow>
          (let df_visits = preprocess_visits cast_other patient_visits;
               df_logs = preprocess_logs hospital_logs;
               df_demo = patient_demographics;
               df_visits = patient_visits;
               df_logs = hospital_logs;
               df_logs = preprocess_logs df_logs
           in Inr (df_final df_demo df_visits df_logs)))"

text \<open>
  The same joins fed with the cleaners' outputs, which is the pipeline the cleaners
  were written for; the notebook never builds this table.
\<close>

definition cleaned_df_final ::
  "(string \<Rightarrow> int option) \<Rightarrow> demo_row list \<Rightarrow> visits_row list \<Rightarrow> logs_row list
     \<Rightarrow> error + final_row list" where
  "cleaned_df_final cast_other patient_demographics patient_visits hospital_logs =
     (case preprocess_demographics patient_demographics of
        Inl e \<Rightarrow> Inl e
      | Inr df_demo \<Rightarrow>
          Inr (df_final df_demo (preprocess_visits cast_other patient_visits)
                 (preprocess_logs hospital_logs)))"

subsection \<open>Feature encoder: categorical columns\<close>

text \<open>
  \<^verbatim>\<open>StringIndexer(handleInvalid="keep")\<close>: fitting orders the non-null values of the
  column by descending frequency, equally frequent ones alphabetically; the index of a
  value is its position in that list of labels. A null, or a value that is not a label,
  goes to the extra bucket, whose index is the number of labels.
\<close>

definition StringIndexer_fit :: "string option list \<Rightarrow> string list" where
  "StringIndexer_fit col =
     (let vs = non_null col
      in sort_key (\<lambda>l. (- int (count_list vs l), l)) (remdups vs))"

fun index_of :: "'a \<Rightarrow> 'a list \<Rightarrow> nat" where
  "index_of v [] = 0"
| "index_of v (l # ls) = (if l = v then 0 else Suc (index_of v ls))"

definition StringIndexer_transform :: "string list \<Rightarrow> string option \<Rightarrow> nat" where
  "StringIndexer_transform labels x =
     (case x of
        None \<Rightarrow> length labels
      | Some v \<Rightarrow> if v \<in> set labels then index_of v labels else length labels)"

text \<open>
  \<^verbatim>\<open>OneHotEncoder\<close> with its defaults (\<^verbatim>\<open>dropLast=True\<close>, \<^verbatim>\<open>handleInvalid="error"\<close>).
  Fitting reads the categories from the index column, where the indexer has recorded
  its labels and the extra bucket, and fails unless there are at least two of them:
  a column without any non-null value has the extra bucket only. The output vector has
  one slot less than there are categories: the last category is dropped and encoded by
  the vector without any entry.
\<close>

datatype vector = SparseVector nat "nat list" "real list"

definition OneHotEncoder_fit :: "string list \<Rightarrow> error + nat" where
  "OneHotEncoder_fit labels =
     (let names = labels @ [''__unknown'']
      in if length names > 1 then Inr (length names) else Inl TooFewDistinctValues)"

definition OneHotEncoder_transform :: "nat \<Rightarrow> nat \<Rightarrow> error + vector" where
  "OneHotEncoder_transform categorySize idx =
     (let outSize = categorySize - 1
      in if idx \<ge> categorySize then Inl InvalidCategoryIndex
         else if idx < outSize then Inr (SparseVector outSize [idx] [1])
         else Inr (SparseVector outSize [] []))"

text \<open>
  An exception ends the cell: of a list of results the first failure is the result.
\<close>

fun collect :: "(error + 'a) list \<Rightarrow> error + 'a list" where
  "collect [] = Inr []"
| "collect (Inl e # xs) = Inl e"
| "collect (Inr x # xs) = (case collect xs of Inl e \<Rightarrow> Inl e | Inr ys \<Rightarrow> Inr (x # ys))"

definition encode_column :: "string option list \<Rightarrow> error + vector list" where
  "encode_column col =
     (let labels = StringIndexer_fit col;
          idx = map (StringIndexer_transform labels) col
      in case OneHotEncoder_fit labels of
           Inl e \<Rightarrow> Inl e
         | Inr categorySize \<Rightarrow> collect (map (OneHotEncoder_transform categorySize) idx))"

definition categorical_cols :: "(final_row \<Rightarrow> string option) list" where
  "categorical_cols =
     [\<lambda>r. gender (demo r), \<lambda>r. insurance (demo r), \<lambda>r. marital_status (demo r),
      \<lambda>r. education_level (demo r), \<lambda>r. employment_status (demo r),
      \<lambda>r. language_preference (demo r), \<lambda>r. visit_type (visit r),
      \<lambda>r. appointment_day (visit r), \<lambda>r. visits_row.department (visit r),
      \<lambda>r. most_recent_department r, \<lambda>r. has_mobile_app (demo r)]"


fun vector_size :: "vector \<Rightarrow> nat" where
  "vector_size (SparseVector n is vs) = n"


fun toArray :: "vector \<Rightarrow> real list" where
  "toArray (SparseVector n is vs) =
     map (\<lambda>k. case map_of (zip is vs) k of None \<Rightarrow> 0 | Some v \<Rightarrow> v) [0..<n]"

text \<open>
  Modelled from the spec: the decoder of a one-hot vector, which the notebook does not
  have. It returns the position of the vector's nonzero entry, and nothing when the
  vector does not have exactly one.
\<close>

definition decode_index :: "vector \<Rightarrow> nat option" where
  "decode_index x =
     (case filter (\<lambda>k. toArray x ! k \<noteq> 0) [0..<vector_size x] of
        [k] \<Rightarrow> Some k
      | _ \<Rightarrow> None)"

subsection \<open>Balancer and split\<close>

text \<open>
  Randomness enters as an argument: \<open>rng seed i\<close> are the 53 random bits the seeded
  generator hands out for the row at position \<open>i\<close>, and \<open>nextDouble\<close> turns them into a
  number of the unit interval, 1 excluded, as the generator does.
\<close>

definition nextDouble :: "nat \<Rightarrow> real" where
  "nextDouble bits = real (bits mod 2 ^ 53) / 2 ^ 53"

fun enumerate_rows :: "nat \<Rightarrow> 'a list \<Rightarrow> (nat \<times> 'a) list" where
  "enumerate_rows i [] = []"
| "enumerate_rows i (x # xs) = (i, x) # enumerate_rows (Suc i) xs"

text \<open>
  The sampler behind both \<^verbatim>\<open>sample\<close> and \<^verbatim>\<open>randomSplit\<close> decides for each row on its
  own: the row stays when its draw falls in the cell from \<open>lb\<close>, included, to \<open>ub\<close>,
  excluded. \<^verbatim>\<open>sample(withReplacement=False, fraction, seed)\<close> is the cell from 0 to the
  fraction.
\<close>

definition cell_sample :: "real \<Rightarrow> real \<Rightarrow> (nat \<Rightarrow> nat) \<Rightarrow> 'a list \<Rightarrow> 'a list" where
  "cell_sample lb ub bits df =
     map snd (filter (\<lambda>(i, r). lb \<le> nextDouble (bits i) \<and> nextDouble (bits i) < ub)
                (enumerate_rows 0 df))"

definition sample :: "real \<Rightarrow> (nat \<Rightarrow> nat) \<Rightarrow> 'a list \<Rightarrow> 'a list" where
  "sample fraction bits df = cell_sample 0 fraction bits df"

text \<open>
  \<^verbatim>\<open>orderBy(rand())\<close> gives each row a random key and sorts the rows by it.
\<close>

definition orderBy_rand :: "(nat \<Rightarrow> nat) \<Rightarrow> 'a list \<Rightarrow> 'a list" where
  "orderBy_rand bits df =
     map snd (sort_key (\<lambda>(i, r). nextDouble (bits i)) (enumerate_rows 0 df))"

record labelled_row =
  drop_off :: "int option"

definition df_major :: "'a labelled_row_scheme list \<Rightarrow> 'a labelled_row_scheme list" where
  "df_major df_clustered = filter (\<lambda>r. is_true (eq_lit (labelled_row.drop_off r) 0)) df_clustered"

definition df_minor :: "'a labelled_row_scheme list \<Rightarrow> 'a labelled_row_scheme list" where
  "df_minor df_clustered = filter (\<lambda>r. is_true (eq_lit (labelled_row.drop_off r) 1)) df_clustered"

definition df_major_sampled ::
  "(int \<Rightarrow> nat \<Rightarrow> nat) \<Rightarrow> 'a labelled_row_scheme list \<Rightarrow> 'a labelled_row_scheme list" where
  "df_major_sampled rng df_clustered = sample (24000 / 559743) (rng 42) (df_major df_clustered)"

definition df_balanced ::
  "(int \<Rightarrow> nat \<Rightarrow> nat) \<Rightarrow> (nat \<Rightarrow> nat) \<Rightarrow> 'a labelled_row_scheme list
     \<Rightarrow> 'a labelled_row_scheme list" where
  "df_balanced rng rand df_clustered =
     orderBy_rand rand (df_major_sampled rng df_clustered @ df_minor df_clustered)"

text \<open>
  \<^verbatim>\<open>randomSplit(weights, seed)\<close> divides the weights by their sum, cuts the unit interval at
  their running sums, sorts the rows, and gives every split the rows whose draw falls in
  its cell; all splits read the same draws, those of the one seed.
\<close>

definition normalizedCumWeights :: "real list \<Rightarrow> real list" where
  "normalizedCumWeights weights =
     map (\<lambda>k. sum_list (take k (map (\<lambda>w. w / sum_list weights) weights)))
       [0..<Suc (length weights)]"

definition randomSplit ::
  "real list \<Rightarrow> (nat \<Rightarrow> nat) \<Rightarrow> ('a::linorder) list \<Rightarrow> 'a list list" where
  "randomSplit weights bits df =
     (let cum = normalizedCumWeights weights
      in map (\<lambda>(lb, ub). cell_sample lb ub bits (sort df)) (zip cum (tl cum)))"

definition train_test ::
  "(int \<Rightarrow> nat \<Rightarrow> nat) \<Rightarrow> ('a::linorder) list \<Rightarrow> 'a list \<times> 'a list" where
  "train_test rng df_ml_ready =
     (case randomSplit [0.7, 0.3] (rng 42) df_ml_ready of
        [train, test] \<Rightarrow> (train, test)
      | _ \<Rightarrow> ([], []))"

subsection \<open>Concrete tables\<close>

text \<open>
  Patient 1 of the end-to-end scenario: \<open>gender = "M"\<close>, seven chronic conditions, a
  visit whose \<open>drop_off\<close> is missing, and two log events, one of them critical. The
  other columns are those the notebook shows for its first patient.
\<close>

definition scenario_demo :: demo_row where
  "scenario_demo =
     \<lparr> demo_row.patient_id = Some 1, age = Some 51, gender = Some ''M'',
       zipcode = Some 49372, insurance = Some ''Medicare'',
       marital_status = Some ''Single'', education_level = Some ''Bachelor'',
       employment_status = Some ''Student'', chronic_conditions = Some 7,
       has_mobile_app = Some ''Yes'', language_preference = Some ''Hindi'',
       avg_monthly_income = Some 20268 \<rparr>"

definition scenario_visit :: visits_row where
  "scenario_visit =
     \<lparr> visits_row.patient_id = Some 1, num_visits = Some 1, total_spent = Some 640,
       time_in_waiting = Some 23, visit_type = Some ''New'',
       appointment_day = Some ''Saturday'', visits_row.department = Some ''Cardiology'',
       satisfaction_score = Some 10, doctor_assigned = Some ''D064'',
       visit_duration = Some 17, prescription_given = Some ''Yes'',
       followup_recommended = Some ''No'', visits_row.drop_off = None \<rparr>"

definition scenario_logs :: "logs_row list" where
  "scenario_logs =
     [\<lparr> logs_row.department = Some ''Cardiology'', event = Some ''Checked-In'',
        log_type = Some ''critical'', logs_row.patient_id = Some 1,
        staff_on_duty = Some ''S030'', timestamp = Some 100 \<rparr>,
      \<lparr> logs_row.department = Some ''Ortho'', event = Some ''Procedure'',
        log_type = Some ''info'', logs_row.patient_id = Some 1,
        staff_on_duty = Some ''S044'', timestamp = Some 200 \<rparr>]"

text \<open>
  A visit whose file row is empty but for the patient, and a visit labelled 2.
\<close>

definition visit_missing :: visits_row where
  "visit_missing =
     \<lparr> visits_row.patient_id = Some 2, num_visits = None, total_spent = None,
       time_in_waiting = None, visit_type = None, appointment_day = None,
       visits_row.department = None, satisfaction_score = None, doctor_assigned = None,
       visit_duration = None, prescription_given = None, followup_recommended = None,
       visits_row.drop_off = None \<rparr>"

definition visit_labelled_2 :: visits_row where
  "visit_labelled_2 = scenario_visit\<lparr> visits_row.drop_off := Some (Whole 2) \<rparr>"

text \<open>
  The \<open>drop_off\<close> column of these visits holds whole numbers or nothing, so that no cell
  of another type is ever cast: for them the conversion of such a cell is the one that
  converts nothing.
\<close>

definition no_other_cells :: "string \<Rightarrow> int option" where
  "no_other_cells s = None"


text \<open>
  A log event whose \<open>patient_id\<close>, 4294967297, is 1 after the cast to 32 bits.
\<close>

definition wrapped_logs :: "logs_row list" where
  "wrapped_logs =
     [\<lparr> logs_row.department = Some ''Ortho'', event = Some ''Checked-In'',
        log_type = Some ''info'', logs_row.patient_id = Some 4294967297,
        staff_on_duty = Some ''S088'', timestamp = Some 400 \<rparr>]"

text \<open>
  The log events of a patient who is in neither of the two other tables.
\<close>

definition other_logs :: "logs_row list" where
  "other_logs =
     [\<lparr> logs_row.department = Some ''Dermatology'', event = Some ''Procedure'',
        log_type = Some ''info'', logs_row.patient_id = Some 423602,
        staff_on_duty = Some ''S030'', timestamp = Some 300 \<rparr>]"

section \<open>Properties of the cleaners\<close>

lemma fillna_eq: "fillna v x = Some (case x of None \<Rightarrow> v | Some y \<Rightarrow> y)"
  by (cases x) (simp_all add: fillna_def)

lemma cap_chronic_conditions_eq:
  "cap_chronic_conditions c = map_option (\<lambda>v. if v > 5 then 5 else v) c"
  by (cases c) (simp_all add: cap_chronic_conditions_def is_true_def gt_def)

lemma chronic_clean_demo_row:
  "chronic_conditions (clean_demo_row m r) = cap_chronic_conditions (chronic_conditions r)"
  by (simp add: clean_demo_row_def categorical_demo_def Let_def)

lemma scenario_mean: "mean (map avg_monthly_income [scenario_demo]) = Some 20268"
  by (simp add: mean_def non_null_def List.map_filter_def scenario_demo_def)

text \<open>
  Claim C8. When the demographics cleaner returns, it returns one row for each input
  row, in the same order, and the \<open>chronic_conditions\<close> of every output row is at most 5:
  a value above 5 has become exactly 5, every other value, negative or missing
  included, is the input's.
\<close>

theorem C8_chronic_conditions_capped:
  assumes "preprocess_demographics df_demo = Inr out"
  shows "length out = length df_demo \<and>
         (\<forall>i < length df_demo.
            chronic_conditions (out ! i) =
              (case chronic_conditions (df_demo ! i) of
                 None \<Rightarrow> None
               | Some c \<Rightarrow> Some (if c > 5 then 5 else c)) \<and>
            (\<forall>c. chronic_conditions (out ! i) = Some c \<longrightarrow> c \<le> 5))"
proof -
  from assms obtain m where out: "out = map (clean_demo_row m) df_demo"
    by (auto simp: preprocess_demographics_def split: option.splits)
  show ?thesis
    by (auto simp: out chronic_clean_demo_row cap_chronic_conditions_eq split: option.splits)
qed

theorem C8_chronic_conditions_capped_witness:
  "preprocess_demographics [scenario_demo] = Inr [clean_demo_row 20268 scenario_demo] \<and>
   chronic_conditions scenario_demo = Some 7 \<and>
   chronic_conditions (clean_demo_row 20268 scenario_demo) = Some 5"
proof -
  have h: "preprocess_demographics [scenario_demo] = Inr [clean_demo_row 20268 scenario_demo]"
    using scenario_mean by (simp add: preprocess_demographics_def)
  have c: "chronic_conditions scenario_demo = Some 7"
    by (simp add: scenario_demo_def)
  from C8_chronic_conditions_capped [OF h] c show ?thesis
    using h by simp
qed

lemma cast_long_to_int_eq:
  "cast_long_to_int n = (n + 2147483648) mod 4294967296 - 2147483648"
  by (simp add: cast_long_to_int_def int_word_sint)

lemma cast_long_to_int_mod:
  "cast_long_to_int n =
     (if n mod 4294967296 < 2147483648 then n mod 4294967296 else n mod 4294967296 - 4294967296)"
proof -
  define r where "r = n mod 4294967296"
  have r: "0 \<le> r" "r < 4294967296"
    by (simp_all add: r_def)
  have shift: "(n + 2147483648) mod 4294967296 = (r + 2147483648) mod 4294967296"
    unfolding r_def by (simp add: mod_add_left_eq)
  show ?thesis
  proof (cases "r < 2147483648")
    case True
    with r have "(r + 2147483648) mod 4294967296 = r + 2147483648"
      by simp
    with True show ?thesis
      by (simp add: cast_long_to_int_eq shift r_def [symmetric])
  next
    case False
    have "r + 2147483648 = r - 2147483648 + 4294967296"
      by linarith
    then have "(r + 2147483648) mod 4294967296 = (r - 2147483648 + 4294967296) mod 4294967296"
      by (simp only:)
    also have "\<dots> = (r - 2147483648) mod 4294967296"
      by (rule mod_add_self2)
    also have "\<dots> = r - 2147483648"
      using False r by simp
    finally show ?thesis
      using False by (simp add: cast_long_to_int_eq shift r_def [symmetric])
  qed
qed

lemma cast_long_to_int_fits:
  "- 2147483648 \<le> n \<Longrightarrow> n < 2147483648 \<Longrightarrow> cast_long_to_int n = n"
  by (simp add: cast_long_to_int_eq)

lemma cast_long_to_int_zero: "cast_long_to_int n = 0 \<longleftrightarrow> n mod 4294967296 = 0"
  using pos_mod_bound [of 4294967296 n] pos_mod_sign [of 4294967296 n]
  by (auto simp: cast_long_to_int_mod)

lemma cast_long_to_int_one: "cast_long_to_int n = 1 \<longleftrightarrow> n mod 4294967296 = 1"
  using pos_mod_bound [of 4294967296 n] pos_mod_sign [of 4294967296 n]
  by (auto simp: cast_long_to_int_mod)

lemma clean_visits_row_fields:
  "total_spent (clean_visits_row cast_other r) = fillna 0 (total_spent r)"
  "visit_duration (clean_visits_row cast_other r) = fillna 0 (visit_duration r)"
  "visits_row.drop_off (clean_visits_row cast_other r)
     = cast_int_col cast_other (fillna (Whole 0) (visits_row.drop_off r))"
  "visit_type (clean_visits_row cast_other r) = fillna ''Unknown'' (visit_type r)"
  "visits_row.department (clean_visits_row cast_other r)
     = fillna ''Unknown'' (visits_row.department r)"
  "appointment_day (clean_visits_row cast_other r) = fillna ''Unknown'' (appointment_day r)"
  "visits_row.patient_id (clean_visits_row cast_other r) = visits_row.patient_id r"
  "num_visits (clean_visits_row cast_other r) = num_visits r"
  "time_in_waiting (clean_visits_row cast_other r) = time_in_waiting r"
  "satisfaction_score (clean_visits_row cast_other r) = satisfaction_score r"
  "doctor_assigned (clean_visits_row cast_other r) = doctor_assigned r"
  "prescription_given (clean_visits_row cast_other r) = prescription_given r"
  "followup_recommended (clean_visits_row cast_other r) = followup_recommended r"
  by (simp_all add: clean_visits_row_def Let_def)

lemma drop_off_cleaned:
  "cast_int_col cast_other (fillna (Whole 0) x) =
     (case x of
        None \<Rightarrow> Some (Whole 0)
      | Some (Whole n) \<Rightarrow> Some (Whole (cast_long_to_int n))
      | Some (Other s) \<Rightarrow> map_option Whole (cast_other s))"
  by (simp add: cast_int_col_def fillna_def cast_long_to_int_fits split: option.splits label.splits)

lemma drop_off_clean_visits_row:
  "visits_row.drop_off (clean_visits_row cast_other r) =
     (case visits_row.drop_off r of
        None \<Rightarrow> Some (Whole 0)
      | Some (Whole n) \<Rightarrow> Some (Whole (cast_long_to_int n))
      | Some (Other s) \<Rightarrow> map_option Whole (cast_other s))"
  by (simp add: clean_visits_row_fields drop_off_cleaned)

text \<open>
  Claim C6, as stated, fails: the cleaner fills a missing \<open>drop_off\<close> and casts the
  column, and nothing in it maps a label to 0 or 1. A visit labelled 2 in the file is
  labelled 2 after cleaning.
\<close>

theorem C6_drop_off_not_binary_counterexample:
  "map visits_row.drop_off (preprocess_visits no_other_cells [visit_labelled_2])
     = [Some (Whole 2)]"
  by (simp add: preprocess_visits_def clean_visits_row_fields drop_off_cleaned
      visit_labelled_2_def cast_long_to_int_fits)

text \<open>
  Claim C6, amended. The visits cleaner returns one row for each input row. The
  \<open>drop_off\<close> of an output row is 0 where the input's was missing. Where the column was
  read as an integer column it is the input's value cut to its low 32 bits, signed: it
  is never null, it is the input's value when that fits in 32 bits, and it is 0 or 1
  exactly when the input's value is 0 or 1 modulo \<open>2\<^sup>3\<^sup>2\<close>. Where the column was read as
  another type it is what the library's cast makes of the cell, null when the cell
  does not convert.
\<close>

theorem C6_drop_off_filled:
  "length (preprocess_visits cast_other df_visits) = length df_visits \<and>
   (\<forall>i < length df_visits.
      (case visits_row.drop_off (df_visits ! i) of
         None \<Rightarrow>
           visits_row.drop_off (preprocess_visits cast_other df_visits ! i) = Some (Whole 0)
       | Some (Whole n) \<Rightarrow>
           visits_row.drop_off (preprocess_visits cast_other df_visits ! i)
             = Some (Whole (cast_long_to_int n)) \<and>
           (- 2147483648 \<le> n \<and> n < 2147483648 \<longrightarrow> cast_long_to_int n = n) \<and>
           (cast_long_to_int n \<in> {0, 1} \<longleftrightarrow> n mod 4294967296 \<in> {0, 1})
       | Some (Other s) \<Rightarrow>
           visits_row.drop_off (preprocess_visits cast_other df_visits ! i)
             = map_option Whole (cast_other s)))"
  by (simp add: preprocess_visits_def clean_visits_row_fields drop_off_cleaned
      cast_long_to_int_fits cast_long_to_int_zero cast_long_to_int_one
      split: option.splits label.splits)

theorem C6_drop_off_filled_witness:
  "map visits_row.drop_off [scenario_visit, visit_labelled_2] = [None, Some (Whole 2)] \<and>
   visits_row.drop_off (preprocess_visits no_other_cells [scenario_visit, visit_labelled_2] ! 0)
     = Some (Whole 0) \<and>
   visits_row.drop_off (preprocess_visits no_other_cells [scenario_visit, visit_labelled_2] ! 1)
     = Some (Whole 2)"
proof -
  have raw: "visits_row.drop_off scenario_visit = None"
    "visits_row.drop_off visit_labelled_2 = Some (Whole 2)"
    by (simp_all add: scenario_visit_def visit_labelled_2_def)
  have fits: "cast_long_to_int 2 = 2"
    by (simp add: cast_long_to_int_fits)
  from C6_drop_off_filled [of no_other_cells "[scenario_visit, visit_labelled_2]"]
  have "\<forall>i < 2. (case visits_row.drop_off ([scenario_visit, visit_labelled_2] ! i) of
         None \<Rightarrow>
           visits_row.drop_off
             (preprocess_visits no_other_cells [scenario_visit, visit_labelled_2] ! i)
             = Some (Whole 0)
       | Some (Whole n) \<Rightarrow>
           visits_row.drop_off
             (preprocess_visits no_other_cells [scenario_visit, visit_labelled_2] ! i)
             = Some (Whole (cast_long_to_int n)) \<and>
           (- 2147483648 \<le> n \<and> n < 2147483648 \<longrightarrow> cast_long_to_int n = n) \<and>
           (cast_long_to_int n \<in> {0, 1} \<longleftrightarrow> n mod 4294967296 \<in> {0, 1})
       | Some (Other s) \<Rightarrow>
           visits_row.drop_off
             (preprocess_visits no_other_cells [scenario_visit, visit_labelled_2] ! i)
             = map_option Whole (no_other_cells s))"
    by simp
  from this [rule_format, of 0] this [rule_format, of 1] raw fits show ?thesis
    by simp
qed

text \<open>
  Claim C7, as stated, fails: the cleaner fills the six columns its dictionary names and
  no other. A missing \<open>num_visits\<close>, a numeric column, and a missing \<open>doctor_assigned\<close>,
  a categorical one, are still missing after cleaning.
\<close>

theorem C7_unlisted_columns_counterexample:
  "map num_visits (preprocess_visits no_other_cells [visit_missing]) = [None] \<and>
   map doctor_assigned (preprocess_visits no_other_cells [visit_missing]) = [None]"
  by (simp add: preprocess_visits_def clean_visits_row_fields visit_missing_def)

text \<open>
  Claim C7, amended. In every row the visits cleaner returns, the numeric columns
  \<open>total_spent\<close>, \<open>visit_duration\<close> and \<open>drop_off\<close> have 0 where the input had no value,
  and the categorical columns \<open>visit_type\<close>, \<open>department\<close> and \<open>appointment_day\<close> have
  \<open>"Unknown"\<close> there. A present value of these columns is kept, but for \<open>drop_off\<close>,
  where it is cast to a 32-bit integer after the fill. The seven other columns are the
  input's, missing values included.
\<close>

theorem C7_listed_columns_filled:
  "length (preprocess_visits cast_other df_visits) = length df_visits \<and>
   (\<forall>i < length df_visits.
      (let r = df_visits ! i; r' = preprocess_visits cast_other df_visits ! i
       in total_spent r' = Some (case total_spent r of None \<Rightarrow> 0 | Some x \<Rightarrow> x) \<and>
          visit_duration r' = Some (case visit_duration r of None \<Rightarrow> 0 | Some x \<Rightarrow> x) \<and>
          visits_row.drop_off r' =
            (case visits_row.drop_off r of
               None \<Rightarrow> Some (Whole 0)
             | Some (Whole n) \<Rightarrow> Some (Whole (cast_long_to_int n))
             | Some (Other s) \<Rightarrow> map_option Whole (cast_other s)) \<and>
          visit_type r' = Some (case visit_type r of None \<Rightarrow> ''Unknown'' | Some x \<Rightarrow> x) \<and>
          visits_row.department r' =
            Some (case visits_row.department r of None \<Rightarrow> ''Unknown'' | Some x \<Rightarrow> x) \<and>
          appointment_day r' =
            Some (case appointment_day r of None \<Rightarrow> ''Unknown'' | Some x \<Rightarrow> x) \<and>
          visits_row.patient_id r' = visits_row.patient_id r \<and>
          num_visits r' = num_visits r \<and>
          time_in_waiting r' = time_in_waiting r \<and>
          satisfaction_score r' = satisfaction_score r \<and>
          doctor_assigned r' = doctor_assigned r \<and>
          prescription_given r' = prescription_given r \<and>
          followup_recommended r' = followup_recommended r))"
  by (simp add: preprocess_visits_def drop_off_clean_visits_row
      clean_visits_row_fields(1,2,4-13) fillna_eq Let_def)

theorem C7_listed_columns_filled_witness:
  "total_spent (preprocess_visits no_other_cells [visit_missing] ! 0) = Some 0 \<and>
   visits_row.drop_off (preprocess_visits no_other_cells [visit_missing] ! 0) = Some (Whole 0) \<and>
   visit_type (preprocess_visits no_other_cells [visit_missing] ! 0) = Some ''Unknown'' \<and>
   num_visits (preprocess_visits no_other_cells [visit_missing] ! 0) = None"
  using C7_listed_columns_filled [of no_other_cells "[visit_missing]"]
  by (simp add: visit_missing_def Let_def)

section \<open>Properties of the integration\<close>

lemma key_match_Some: "key_match a (Some p) \<longleftrightarrow> a = Some p"
  by (cases a) (auto simp: key_match_def is_true_def eq_col_def)

lemma key_match_Some_left: "key_match (Some p) b \<longleftrightarrow> b = Some p"
  by (cases b) (auto simp: key_match_def is_true_def eq_col_def)

lemma key_match_None: "\<not> key_match None b" "\<not> key_match a None"
  by (auto simp: key_match_def is_true_def eq_col_def split: option.splits)

lemma key_match_iff: "key_match a b \<longleftrightarrow> a \<noteq> None \<and> a = b"
  by (cases a; cases b) (auto simp: key_match_def is_true_def eq_col_def)

lemma patient_id_of_with_log_features: "patient_id_of (with_log_features p f) = patient_id_of p"
  by (simp add: patient_id_of_def with_log_features_def)

lemma patient_id_of_fill_final: "patient_id_of (fill_final r) = patient_id_of r"
  by (simp add: patient_id_of_def fill_final_def)

lemma dropDuplicates_subset:
  "set (dropDuplicates rs) \<subseteq> set rs"
  by (induction rs rule: dropDuplicates.induct) auto

lemma dropDuplicates_distinct:
  "distinct (map latest_department_row.patient_id (dropDuplicates rs))"
proof (induction rs rule: dropDuplicates.induct)
  case 1
  show ?case by simp
next
  case (2 r rs)
  have "latest_department_row.patient_id r
          \<notin> latest_department_row.patient_id `
              set (dropDuplicates
                     (filter (\<lambda>s. latest_department_row.patient_id s
                                     \<noteq> latest_department_row.patient_id r) rs))"
    using dropDuplicates_subset
      [of "filter (\<lambda>s. latest_department_row.patient_id s
                          \<noteq> latest_department_row.patient_id r) rs"]
    by auto
  with 2 show ?case by simp
qed

lemma distinct_map_filter_le_1:
  assumes "distinct (map f xs)"
  shows "length (filter (\<lambda>x. f x = k) xs) \<le> 1"
  using assms
proof (induction xs)
  case Nil
  show ?case by simp
next
  case (Cons x xs)
  show ?case
  proof (cases "f x = k")
    case True
    from Cons.prems have "f x \<notin> f ` set xs" by simp
    with True have "\<forall>y \<in> set xs. f y \<noteq> k" by blast
    then have "filter (\<lambda>y. f y = k) xs = []"
      by (simp add: filter_empty_conv)
    with True show ?thesis by simp
  next
    case False
    with Cons show ?thesis by simp
  qed
qed

lemma join_latest_department_one:
  assumes "distinct (map latest_department_row.patient_id ld)"
  shows "\<exists>g. join_latest_department ld f = [g]
              \<and> log_features_row.patient_id g = log_features_row.patient_id f"
proof (cases "log_features_row.patient_id f")
  case None
  then show ?thesis
    by (simp add: join_latest_department_def key_match_None)
next
  case (Some p)
  have le: "length (filter (\<lambda>d. latest_department_row.patient_id d = Some p) ld) \<le> 1"
    using assms by (rule distinct_map_filter_le_1)
  show ?thesis
  proof (cases "filter (\<lambda>d. latest_department_row.patient_id d = Some p) ld")
    case Nil
    with Some show ?thesis
      by (simp add: join_latest_department_def key_match_Some_left)
  next
    case (Cons d ds)
    with le have "ds = []" by simp
    with Cons Some show ?thesis
      by (simp add: join_latest_department_def key_match_Some_left)
  qed
qed

lemma df_log_features_keys:
  "map log_features_row.patient_id (df_log_features df_logs) = group_keys df_logs"
proof -
  define ld where "ld = latest_department df_logs"
  have d: "distinct (map latest_department_row.patient_id ld)"
    unfolding ld_def latest_department_def by (rule dropDuplicates_distinct)
  have step: "map log_features_row.patient_id
                (concat (map (join_latest_department ld) (map (agg_log_features df_logs) ks)))
              = ks" for ks
  proof (induction ks)
    case Nil
    show ?case by simp
  next
    case (Cons k ks)
    obtain g where g: "join_latest_department ld (agg_log_features df_logs k) = [g]"
      "log_features_row.patient_id g = log_features_row.patient_id (agg_log_features df_logs k)"
      using join_latest_department_one [OF d] by blast
    have "log_features_row.patient_id (agg_log_features df_logs k) = k"
      by (simp add: agg_log_features_def Let_def)
    with g Cons show ?case by simp
  qed
  have fill: "log_features_row.patient_id (fill_log_features f) = log_features_row.patient_id f"
    for f by (simp add: fill_log_features_def)
  show ?thesis
    unfolding df_log_features_def ld_def [symmetric]
    using step [of "group_keys df_logs"] by (simp add: fill comp_def)
qed

lemma df_log_features_distinct:
  "distinct (map log_features_row.patient_id (df_log_features df_logs))"
  by (simp add: df_log_features_keys group_keys_def)

lemma join_log_features_one:
  "\<exists>r. join_log_features (df_log_features df_logs) p = [r] \<and> patient_id_of r = patient_id_of p"
proof (cases "patient_id_of p")
  case None
  then show ?thesis
    by (simp add: join_log_features_def key_match_None patient_id_of_with_log_features)
next
  case (Some k)
  have le: "length (filter (\<lambda>f. log_features_row.patient_id f = Some k)
                      (df_log_features df_logs)) \<le> 1"
    using df_log_features_distinct by (rule distinct_map_filter_le_1)
  show ?thesis
  proof (cases "filter (\<lambda>f. log_features_row.patient_id f = Some k) (df_log_features df_logs)")
    case Nil
    with Some show ?thesis
      by (simp add: join_log_features_def key_match_Some_left patient_id_of_with_log_features)
  next
    case (Cons f fs)
    with le have "fs = []" by simp
    with Cons Some show ?thesis
      by (simp add: join_log_features_def key_match_Some_left patient_id_of_with_log_features)
  qed
qed

lemma df_final_patient_ids:
  "map patient_id_of (df_final df_demo df_visits df_logs)
     = map patient_id_of (df_patient df_demo df_visits)"
proof -
  have step: "map patient_id_of (concat (map (join_log_features (df_log_features df_logs)) ps))
                = map patient_id_of ps" for ps :: "patient_row list"
  proof (induction ps)
    case Nil
    show ?case by simp
  next
    case (Cons p ps)
    obtain r where "join_log_features (df_log_features df_logs) p = [r]"
      "patient_id_of r = patient_id_of p"
      using join_log_features_one by blast
    with Cons show ?case by simp
  qed
  show ?thesis
    unfolding df_final_def
    using step [of "df_patient df_demo df_visits"]
    by (simp add: comp_def patient_id_of_fill_final)
qed

lemma df_patient_count:
  "length (filter (\<lambda>k. k = Some p) (map patient_id_of (df_patient df_demo df_visits)))
     = length (filter (\<lambda>d. demo_row.patient_id d = Some p) df_demo)
       * length (filter (\<lambda>v. visits_row.patient_id v = Some p) df_visits)"
proof (induction df_demo)
  case Nil
  show ?case by (simp add: df_patient_def)
next
  case (Cons d ds)
  have split: "df_patient (d # ds) df_visits =
                 map (\<lambda>v. \<lparr> demo = d, visit = v \<rparr>)
                   (filter (\<lambda>v. key_match (demo_row.patient_id d) (visits_row.patient_id v))
                      df_visits)
                 @ df_patient ds df_visits"
    by (simp add: df_patient_def)
  have head: "length (filter (\<lambda>k. k = Some p)
                 (map patient_id_of
                    (map (\<lambda>v. \<lparr> demo = d, visit = v \<rparr>)
                       (filter (\<lambda>v. key_match (demo_row.patient_id d) (visits_row.patient_id v))
                          df_visits))))
              = (if demo_row.patient_id d = Some p
                 then length (filter (\<lambda>v. visits_row.patient_id v = Some p) df_visits) else 0)"
  proof (cases "demo_row.patient_id d = Some p")
    case True
    have "filter (\<lambda>v. key_match (Some p) (visits_row.patient_id v)) df_visits
            = filter (\<lambda>v. visits_row.patient_id v = Some p) df_visits"
      by (simp add: key_match_Some_left)
    with True show ?thesis
      by (simp add: comp_def patient_id_of_def)
  next
    case False
    then show ?thesis
      by (simp add: comp_def patient_id_of_def filter_empty_conv)
  qed
  show ?case
    unfolding split using head Cons.IH by simp
qed
lemma non_null_Cons:
  "non_null (x # xs) = (case x of None \<Rightarrow> non_null xs | Some y \<Rightarrow> y # non_null xs)"
  by (simp add: non_null_def List.map_filter_def split: option.splits)

lemma set_non_null: "set (non_null xs) = {y. Some y \<in> set xs}"
  by (induction xs) (auto simp: non_null_Cons non_null_def List.map_filter_def split: option.splits)

lemma unique_key_count:
  assumes "distinct (non_null (map f xs))" and "Some p \<in> set (map f xs)"
  shows "length (filter (\<lambda>x. f x = Some p) xs) = 1"
  using assms
proof (induction xs)
  case Nil
  then show ?case by simp
next
  case (Cons x xs)
  show ?case
  proof (cases "f x = Some p")
    case True
    with Cons.prems(1) have "p \<notin> set (non_null (map f xs))"
      by (simp add: non_null_Cons)
    then have "\<forall>y \<in> set xs. f y \<noteq> Some p"
      by (force simp: set_non_null)
    then have "filter (\<lambda>y. f y = Some p) xs = []"
      by (simp add: filter_empty_conv)
    with True show ?thesis by simp
  next
    case False
    with Cons.prems have "distinct (non_null (map f xs))" "Some p \<in> set (map f xs)"
      by (auto simp: non_null_Cons split: option.splits)
    with Cons.IH False show ?thesis by simp
  qed
qed

lemma df_final_count:
  "length (filter (\<lambda>r. patient_id_of r = Some p) (df_final df_demo df_visits df_logs))
     = length (filter (\<lambda>d. demo_row.patient_id d = Some p) df_demo)
       * length (filter (\<lambda>v. visits_row.patient_id v = Some p) df_visits)"
proof -
  have "length (filter (\<lambda>r. patient_id_of r = Some p) (df_final df_demo df_visits df_logs))
          = length (filter (\<lambda>k. k = Some p)
                      (map patient_id_of (df_final df_demo df_visits df_logs)))"
    by (simp add: filter_map comp_def)
  also have "\<dots> = length (filter (\<lambda>k. k = Some p)
                         (map patient_id_of (df_patient df_demo df_visits)))"
    by (simp only: df_final_patient_ids)
  also have "\<dots> = length (filter (\<lambda>d. demo_row.patient_id d = Some p) df_demo)
                    * length (filter (\<lambda>v. visits_row.patient_id v = Some p) df_visits)"
    by (rule df_patient_count)
  finally show ?thesis .
qed

lemma scenario_patient_ids:
  "demo_row.patient_id scenario_demo = Some 1"
  "visits_row.patient_id scenario_visit = Some 1"
  "visits_row.patient_id visit_labelled_2 = Some 1"
  by (simp_all add: scenario_demo_def scenario_visit_def visit_labelled_2_def)

text \<open>
  Claim C2, as stated, fails: the inner join pairs a demographics row with every visits
  row of the patient, and nothing removes repeated patients from the visits table
  before. Patient 1, once in the demographics table and twice in the visits table, has
  two integrated rows.
\<close>

theorem C2_repeated_visits_counterexample:
  "map patient_id_of (df_final [scenario_demo] [scenario_visit, visit_labelled_2] scenario_logs)
     = [Some 1, Some 1]"
  by (simp add: df_final_patient_ids df_patient_def scenario_patient_ids key_match_Some
      patient_id_of_def)

text \<open>
  Claim C2, amended. When \<open>patient_id\<close> is unique within the demographics table, a
  patient present in both the demographics table and the visits table has as many
  integrated rows as visits rows, at least one; so exactly one when the patient is
  unique within the visits table as well. The logs never change that number.
\<close>

theorem C2_one_row_per_visit:
  assumes "distinct (non_null (map demo_row.patient_id df_demo))"
    and "Some p \<in> set (map demo_row.patient_id df_demo)"
    and "Some p \<in> set (map visits_row.patient_id df_visits)"
  shows "length (filter (\<lambda>r. patient_id_of r = Some p) (df_final df_demo df_visits df_logs))
           = length (filter (\<lambda>v. visits_row.patient_id v = Some p) df_visits)
         \<and> 1 \<le> length (filter (\<lambda>v. visits_row.patient_id v = Some p) df_visits)"
proof -
  have one: "length (filter (\<lambda>d. demo_row.patient_id d = Some p) df_demo) = 1"
    using assms(1,2) by (rule unique_key_count)
  from assms(3) obtain v where "v \<in> set df_visits" "visits_row.patient_id v = Some p"
    by auto
  then have "filter (\<lambda>v. visits_row.patient_id v = Some p) df_visits \<noteq> []"
    by (auto simp: filter_empty_conv)
  then have "1 \<le> length (filter (\<lambda>v. visits_row.patient_id v = Some p) df_visits)"
    by (cases "filter (\<lambda>v. visits_row.patient_id v = Some p) df_visits") simp_all
  with one show ?thesis
    by (simp add: df_final_count)
qed

theorem C2_one_row_per_visit_witness:
  "distinct (non_null (map demo_row.patient_id [scenario_demo])) \<and>
   Some 1 \<in> set (map demo_row.patient_id [scenario_demo]) \<and>
   Some 1 \<in> set (map visits_row.patient_id [scenario_visit]) \<and>
   length (filter (\<lambda>r. patient_id_of r = Some 1)
             (df_final [scenario_demo] [scenario_visit] scenario_logs)) = 1"
proof -
  have a: "distinct (non_null (map demo_row.patient_id [scenario_demo]))"
    by (simp add: non_null_Cons non_null_def List.map_filter_def scenario_patient_ids)
  have b: "Some 1 \<in> set (map demo_row.patient_id [scenario_demo])"
    by (simp add: scenario_patient_ids)
  have c: "Some 1 \<in> set (map visits_row.patient_id [scenario_visit])"
    by (simp add: scenario_patient_ids)
  from C2_one_row_per_visit [OF a b c, of scenario_logs] a b c show ?thesis
    by (simp add: scenario_patient_ids)
qed

lemma fill_final_None:
  "fill_final (with_log_features p None) =
     \<lparr> demo = demo p, visit = visit p, log_count = Some 0, critical_logs = Some 0,
       unique_events = Some 0, most_recent_department = Some ''Unknown'' \<rparr>"
  by (simp add: fill_final_def with_log_features_def fillna_def)

lemma join_log_features_absent:
  assumes "patient_id_of p \<notin> set (map logs_row.patient_id df_logs)"
  shows "join_log_features (df_log_features df_logs) p = [with_log_features p None]"
proof -
  from assms have "patient_id_of p \<notin> set (map log_features_row.patient_id (df_log_features df_logs))"
    by (simp add: df_log_features_keys group_keys_def)
  then have "filter (\<lambda>f. key_match (patient_id_of p) (log_features_row.patient_id f))
               (df_log_features df_logs) = []"
    by (auto simp: filter_empty_conv key_match_iff)
  then show ?thesis
    by (simp add: join_log_features_def)
qed

lemma df_final_absent:
  assumes r: "r \<in> set (df_final df_demo df_visits df_logs)"
    and absent: "patient_id_of r \<notin> set (map logs_row.patient_id df_logs)"
  shows "log_count r = Some 0 \<and> critical_logs r = Some 0 \<and> unique_events r = Some 0 \<and>
         most_recent_department r = Some ''Unknown''"
proof -
  from r obtain p where p: "p \<in> set (df_patient df_demo df_visits)"
    and rp: "r \<in> set (map fill_final (join_log_features (df_log_features df_logs) p))"
    by (auto simp: df_final_def)
  obtain x where x: "join_log_features (df_log_features df_logs) p = [x]"
    "patient_id_of x = patient_id_of p"
    using join_log_features_one by blast
  with rp have rx: "r = fill_final x" by simp
  then have "patient_id_of r = patient_id_of p"
    using x by (simp add: patient_id_of_fill_final)
  with absent have "join_log_features (df_log_features df_logs) p = [with_log_features p None]"
    by (simp add: join_log_features_absent)
  with x rx have "r = fill_final (with_log_features p None)" by simp
  then show ?thesis
    by (simp add: fill_final_None)
qed

lemma preprocess_logs_patient_ids:
  "map logs_row.patient_id (preprocess_logs hospital_logs)
     = map (\<lambda>e. map_option cast_long_to_int (logs_row.patient_id e)) hospital_logs"
  by (simp add: preprocess_logs_def comp_def)

lemma scenario_preprocess_logs: "preprocess_logs scenario_logs = scenario_logs"
  by (simp add: preprocess_logs_def scenario_logs_def cast_long_to_int_def to_timestamp_def)

lemma other_preprocess_logs: "preprocess_logs other_logs = other_logs"
  by (simp add: preprocess_logs_def other_logs_def cast_long_to_int_def to_timestamp_def)

lemma wrapped_preprocess_logs:
  "preprocess_logs wrapped_logs =
     [\<lparr> logs_row.department = Some ''Ortho'', event = Some ''Checked-In'',
        log_type = Some ''info'', logs_row.patient_id = Some 1,
        staff_on_duty = Some ''S088'', timestamp = Some 400 \<rparr>]"
  by (simp add: preprocess_logs_def wrapped_logs_def cast_long_to_int_def to_timestamp_def)

lemma scenario_preprocess_demographics:
  "preprocess_demographics [scenario_demo] = Inr [clean_demo_row 20268 scenario_demo]"
  using scenario_mean by (simp add: preprocess_demographics_def)

text \<open>
  Claim C3, as stated, fails. The integration cell cuts the \<open>patient_id\<close> of every log
  event to 32 bits before it aggregates, so an event of another patient can count for
  this one. Patient 1 has no event in a logs file whose only event is of patient
  4294967297, and the integrated row of patient 1 has \<open>log_count\<close> 1 and
  \<open>most_recent_department\<close> \<open>"Ortho"\<close>.
\<close>

theorem C3_wrapped_patient_id_counterexample:
  "map logs_row.patient_id wrapped_logs = [Some 4294967297] \<and>
   map_sum id (map patient_id_of)
     (notebook_df_final no_other_cells [scenario_demo] [scenario_visit] wrapped_logs)
     = Inr [Some 1] \<and>
   map_sum id (map log_count)
     (notebook_df_final no_other_cells [scenario_demo] [scenario_visit] wrapped_logs)
     = Inr [Some 1] \<and>
   map_sum id (map most_recent_department)
     (notebook_df_final no_other_cells [scenario_demo] [scenario_visit] wrapped_logs)
     = Inr [Some ''Ortho'']"
proof -
  have lf: "df_log_features (preprocess_logs wrapped_logs) =
     [\<lparr> log_features_row.patient_id = Some 1, log_count = Some 1, critical_logs = Some 0,
        unique_events = Some 1, log_features_row.most_recent_department = Some ''Ortho'' \<rparr>]"
    unfolding wrapped_preprocess_logs
    by (simp add: df_log_features_def group_keys_def agg_log_features_def group_of_def
        latest_department_def latest_logs_def spark_max_def non_null_def List.map_filter_def
        count_star_def count_when_def countDistinct_def eq_lit_def eq_col_def is_true_def
        key_match_def join_latest_department_def fill_log_features_def fillna_def Let_def)
  have F: "df_final [scenario_demo] [scenario_visit] (preprocess_logs wrapped_logs) =
     [\<lparr> demo = scenario_demo, visit = scenario_visit, log_count = Some 1,
        critical_logs = Some 0, unique_events = Some 1,
        most_recent_department = Some ''Ortho'' \<rparr>]"
    by (simp add: df_final_def df_patient_def lf join_log_features_def scenario_patient_ids
        key_match_Some patient_id_of_def with_log_features_def fill_final_def fillna_def)
  have nb: "notebook_df_final no_other_cells [scenario_demo] [scenario_visit] wrapped_logs =
              Inr (df_final [scenario_demo] [scenario_visit] (preprocess_logs wrapped_logs))"
    by (simp add: notebook_df_final_def scenario_preprocess_demographics Let_def)
  have ids: "map logs_row.patient_id wrapped_logs = [Some 4294967297]"
    by (simp add: wrapped_logs_def)
  show ?thesis
    by (simp add: nb F ids patient_id_of_def scenario_patient_ids)
qed

text \<open>
  Claim C3, amended. An integrated row whose \<open>patient_id\<close> is not the 32-bit cast of the
  \<open>patient_id\<close> of any event in the logs has \<open>log_count\<close>, \<open>critical_logs\<close> and
  \<open>unique_events\<close> 0 and \<open>most_recent_department\<close> \<open>"Unknown"\<close>. In particular, when the
  \<open>patient_id\<close> of every event in the logs fits in 32 bits, this holds for every
  integrated row whose patient has no event in the logs.
\<close>

theorem C3_absent_from_logs:
  "\<forall>r \<in> set (df_final df_demo df_visits (preprocess_logs hospital_logs)).
     ((\<forall>e \<in> set hospital_logs.
          map_option cast_long_to_int (logs_row.patient_id e) \<noteq> patient_id_of r)
      \<or> ((\<forall>e \<in> set hospital_logs. \<forall>n. logs_row.patient_id e = Some n \<longrightarrow>
                                       - 2147483648 \<le> n \<and> n < 2147483648)
         \<and> (\<forall>e \<in> set hospital_logs. logs_row.patient_id e \<noteq> patient_id_of r)))
     \<longrightarrow>
       log_count r = Some 0 \<and> critical_logs r = Some 0 \<and> unique_events r = Some 0 \<and>
       most_recent_department r = Some ''Unknown''"
proof (intro ballI impI)
  fix r
  assume r: "r \<in> set (df_final df_demo df_visits (preprocess_logs hospital_logs))"
    and h: "(\<forall>e \<in> set hospital_logs.
               map_option cast_long_to_int (logs_row.patient_id e) \<noteq> patient_id_of r)
            \<or> ((\<forall>e \<in> set hospital_logs. \<forall>n. logs_row.patient_id e = Some n \<longrightarrow>
                                            - 2147483648 \<le> n \<and> n < 2147483648)
               \<and> (\<forall>e \<in> set hospital_logs. logs_row.patient_id e \<noteq> patient_id_of r))"
  have cast: "\<forall>e \<in> set hospital_logs.
                map_option cast_long_to_int (logs_row.patient_id e) \<noteq> patient_id_of r"
  proof
    fix e
    assume e: "e \<in> set hospital_logs"
    from h show "map_option cast_long_to_int (logs_row.patient_id e) \<noteq> patient_id_of r"
    proof
      assume "\<forall>e \<in> set hospital_logs.
                map_option cast_long_to_int (logs_row.patient_id e) \<noteq> patient_id_of r"
      with e show ?thesis by blast
    next
      assume fit: "(\<forall>e \<in> set hospital_logs. \<forall>n. logs_row.patient_id e = Some n \<longrightarrow>
                                                - 2147483648 \<le> n \<and> n < 2147483648)
                   \<and> (\<forall>e \<in> set hospital_logs. logs_row.patient_id e \<noteq> patient_id_of r)"
      have "map_option cast_long_to_int (logs_row.patient_id e) = logs_row.patient_id e"
      proof (cases "logs_row.patient_id e")
        case None
        then show ?thesis by simp
      next
        case (Some n)
        with fit e have "- 2147483648 \<le> n \<and> n < 2147483648" by blast
        with Some show ?thesis by (simp add: cast_long_to_int_fits)
      qed
      with fit e show ?thesis by simp
    qed
  qed
  then have "patient_id_of r \<notin> set (map logs_row.patient_id (preprocess_logs hospital_logs))"
    by (auto simp: preprocess_logs_patient_ids)
  with r show "log_count r = Some 0 \<and> critical_logs r = Some 0 \<and> unique_events r = Some 0 \<and>
               most_recent_department r = Some ''Unknown''"
    by (rule df_final_absent)
qed

theorem C3_absent_from_logs_witness:
  "map logs_row.patient_id other_logs = [Some 423602] \<and>
   cast_long_to_int 423602 = 423602 \<and>
   map patient_id_of (df_final [scenario_demo] [scenario_visit] (preprocess_logs other_logs))
     = [Some 1] \<and>
   map log_count (df_final [scenario_demo] [scenario_visit] (preprocess_logs other_logs))
     = [Some 0] \<and>
   map critical_logs (df_final [scenario_demo] [scenario_visit] (preprocess_logs other_logs))
     = [Some 0] \<and>
   map unique_events (df_final [scenario_demo] [scenario_visit] (preprocess_logs other_logs))
     = [Some 0] \<and>
   map most_recent_department
     (df_final [scenario_demo] [scenario_visit] (preprocess_logs other_logs))
     = [Some ''Unknown'']"
proof -
  let ?F = "df_final [scenario_demo] [scenario_visit] (preprocess_logs other_logs)"
  have ids: "map patient_id_of ?F = [Some 1]"
    by (simp add: df_final_patient_ids df_patient_def scenario_patient_ids key_match_Some
        patient_id_of_def)
  then have "length ?F = 1"
    using length_map [of patient_id_of ?F] by simp
  then obtain r where F: "?F = [r]"
    by (cases ?F) simp_all
  with ids have id: "patient_id_of r = Some 1" by simp
  have m: "r \<in> set ?F" by (simp add: F)
  have pl: "map logs_row.patient_id other_logs = [Some 423602]"
    by (simp add: other_logs_def)
  have fits: "cast_long_to_int 423602 = 423602"
    by (simp add: cast_long_to_int_fits)
  have "\<forall>e \<in> set other_logs. logs_row.patient_id e = Some 423602"
    by (simp add: other_logs_def)
  then have absent: "\<forall>e \<in> set other_logs.
                       map_option cast_long_to_int (logs_row.patient_id e) \<noteq> patient_id_of r"
    using id fits by simp
  from C3_absent_from_logs [of "[scenario_demo]" "[scenario_visit]" other_logs, THEN bspec, OF m]
    absent
  have "log_count r = Some 0 \<and> critical_logs r = Some 0 \<and> unique_events r = Some 0 \<and>
        most_recent_department r = Some ''Unknown''"
    by blast
  with ids pl fits show ?thesis
    by (simp add: F)
qed

lemma scenario_log_features:
  "df_log_features scenario_logs =
     [\<lparr> log_features_row.patient_id = Some 1, log_count = Some 2, critical_logs = Some 1,
        unique_events = Some 2, log_features_row.most_recent_department = Some ''Ortho'' \<rparr>]"
  by (simp add: df_log_features_def group_keys_def agg_log_features_def group_of_def
      latest_department_def latest_logs_def spark_max_def non_null_def List.map_filter_def
      count_star_def count_when_def countDistinct_def eq_lit_def eq_col_def is_true_def
      key_match_def join_latest_department_def fill_log_features_def fillna_def
      scenario_logs_def Let_def)

lemma scenario_df_final:
  "df_final [d] [v] scenario_logs =
     (if key_match (demo_row.patient_id d) (visits_row.patient_id v)
      then (if demo_row.patient_id d = Some 1
            then [\<lparr> demo = d, visit = v, log_count = Some 2, critical_logs = Some 1,
                    unique_events = Some 2, most_recent_department = Some ''Ortho'' \<rparr>]
            else [\<lparr> demo = d, visit = v, log_count = Some 0, critical_logs = Some 0,
                    unique_events = Some 0, most_recent_department = Some ''Unknown'' \<rparr>])
      else [])"
  by (simp add: df_final_def df_patient_def scenario_log_features join_log_features_def
      key_match_Some patient_id_of_def fill_final_None with_log_features_def fill_final_def
      fillna_def)

text \<open>
  Claim C1 describes the table that the cleaned demographics and visits would give. The
  integration cell does not join the cleaners' outputs: it reads the two files again
  and joins the rows as they are in the files, while it repeats the casts of the logs
  cleaner. For the patient of the scenario the notebook's row has \<open>gender\<close> \<open>"M"\<close>,
  7 chronic conditions and a null \<open>drop_off\<close>; \<open>log_count\<close> 2 and \<open>critical_logs\<close> 1 are
  as claimed. Joining the cleaners' outputs gives the row of the claim.
\<close>

theorem C1_notebook_joins_uncleaned_tables:
  "map_sum id
     (map (\<lambda>r. (patient_id_of r, gender (demo r), chronic_conditions (demo r),
                 visits_row.drop_off (visit r), log_count r, critical_logs r)))
     (notebook_df_final cast_other [scenario_demo] [scenario_visit] scenario_logs)
     = Inr [(Some 1, Some ''M'', Some 7, None, Some 2, Some 1)]
   \<and>
   map_sum id
     (map (\<lambda>r. (patient_id_of r, gender (demo r), chronic_conditions (demo r),
                 visits_row.drop_off (visit r), log_count r, critical_logs r)))
     (cleaned_df_final cast_other [scenario_demo] [scenario_visit] scenario_logs)
     = Inr [(Some 1, Some ''Male'', Some 5, Some (Whole 0), Some 2, Some 1)]"
proof -
  note pre = scenario_preprocess_demographics
  have raw: "gender scenario_demo = Some ''M''" "chronic_conditions scenario_demo = Some 7"
    "visits_row.drop_off scenario_visit = None"
    by (simp_all add: scenario_demo_def scenario_visit_def)
  have cleaned: "demo_row.patient_id (clean_demo_row 20268 scenario_demo) = Some 1"
    "gender (clean_demo_row 20268 scenario_demo) = Some ''Male''"
    "chronic_conditions (clean_demo_row 20268 scenario_demo) = Some 5"
    by (simp_all add: clean_demo_row_def categorical_demo_def standardize_gender_def
        cap_chronic_conditions_def isin_def gt_def is_true_def fillna_def scenario_demo_def
        Let_def)
  have visit: "visits_row.patient_id (clean_visits_row cast_other scenario_visit) = Some 1"
    "visits_row.drop_off (clean_visits_row cast_other scenario_visit) = Some (Whole 0)"
    by (simp_all add: clean_visits_row_fields drop_off_cleaned scenario_visit_def)
  have nb: "notebook_df_final cast_other [scenario_demo] [scenario_visit] scenario_logs =
              Inr (df_final [scenario_demo] [scenario_visit] scenario_logs)"
    by (simp add: notebook_df_final_def pre scenario_preprocess_logs Let_def)
  have cl: "cleaned_df_final cast_other [scenario_demo] [scenario_visit] scenario_logs =
              Inr (df_final [clean_demo_row 20268 scenario_demo]
                     [clean_visits_row cast_other scenario_visit] scenario_logs)"
    by (simp add: cleaned_df_final_def pre scenario_preprocess_logs preprocess_visits_def)
  show ?thesis
    by (simp add: nb cl scenario_df_final scenario_patient_ids key_match_Some raw cleaned visit
        patient_id_of_def)
qed

section \<open>Properties of the categorical encoder\<close>

lemma StringIndexer_fit_set: "set (StringIndexer_fit col) = {v. Some v \<in> set col}"
  by (simp add: StringIndexer_fit_def Let_def set_non_null)



lemma index_of_less: "v \<in> set ls \<Longrightarrow> index_of v ls < length ls"
  by (induction ls) auto



lemma filter_eq_upt: "i < n \<Longrightarrow> filter (\<lambda>k. k = i) [0..<n] = [i]"
proof (induction n)
  case 0
  then show ?case by simp
next
  case (Suc n)
  show ?case
  proof (cases "i = n")
    case True
    then have "filter (\<lambda>k. k = i) [0..<n] = []"
      by (simp add: filter_empty_conv)
    with True show ?thesis by simp
  next
    case False
    with Suc show ?thesis by simp
  qed
qed

lemma toArray_one_hot:
  "toArray (SparseVector n [i] [1]) = map (\<lambda>k. if k = i then 1 else 0) [0..<n]"
  by simp

lemma toArray_empty: "toArray (SparseVector n [] []) = map (\<lambda>k. 0) [0..<n]"
  by simp

lemma decode_one_hot:
  assumes "i < n"
  shows "decode_index (SparseVector n [i] [1]) = Some i"
proof -
  have "filter (\<lambda>k. toArray (SparseVector n [i] [1]) ! k \<noteq> 0) [0..<n]
          = filter (\<lambda>k. k = i) [0..<n]"
    by (rule filter_cong) (simp_all del: toArray.simps add: toArray_one_hot)
  with assms show ?thesis
    by (simp add: decode_index_def filter_eq_upt del: toArray.simps)
qed



lemma OneHotEncoder_fit_eq:
  "OneHotEncoder_fit labels =
     (if labels = [] then Inl TooFewDistinctValues else Inr (Suc (length labels)))"
  by (cases labels) (simp_all add: OneHotEncoder_fit_def Let_def)








lemma scenario_fields:
  "gender scenario_demo = Some ''M''" "insurance scenario_demo = Some ''Medicare''"
  "marital_status scenario_demo = Some ''Single''"
  "education_level scenario_demo = Some ''Bachelor''"
  "employment_status scenario_demo = Some ''Student''"
  "language_preference scenario_demo = Some ''Hindi''"
  "has_mobile_app scenario_demo = Some ''Yes''"
  "visit_type scenario_visit = Some ''New''"
  "appointment_day scenario_visit = Some ''Saturday''"
  "visits_row.department scenario_visit = Some ''Cardiology''"
  by (simp_all add: scenario_demo_def scenario_visit_def)


lemma other_logs_patient_ids: "map logs_row.patient_id other_logs = [Some 423602]"
  by (simp add: other_logs_def)

lemma scenario_other_final:
  "df_final [scenario_demo] [scenario_visit] other_logs =
     [\<lparr> demo = scenario_demo, visit = scenario_visit, log_count = Some 0,
        critical_logs = Some 0, unique_events = Some 0,
        most_recent_department = Some ''Unknown'' \<rparr>]"
proof -
  have "join_log_features (df_log_features other_logs)
          \<lparr> demo = scenario_demo, visit = scenario_visit \<rparr>
        = [with_log_features \<lparr> demo = scenario_demo, visit = scenario_visit \<rparr> None]"
    by (rule join_log_features_absent)
      (simp add: patient_id_of_def scenario_patient_ids other_logs_patient_ids)
  then show ?thesis
    by (simp add: df_final_def df_patient_def scenario_patient_ids key_match_Some
        fill_final_None)
qed


lemma encode_column_one: "encode_column [Some a] = Inr [SparseVector 1 [0] [1]]"
  by (simp add: encode_column_def StringIndexer_fit_def non_null_Cons non_null_def
      List.map_filter_def OneHotEncoder_fit_eq OneHotEncoder_transform_def
      StringIndexer_transform_def Let_def)






text \<open>
  Claim C5. For every column of the fixed list and every value the column has in the
  table the indexer is fitted on, the encoder can be fitted, and the index of the
  value, expanded to its one-hot vector and read back as the position of the vector's
  nonzero entry, is the index again.
\<close>

theorem C5_index_roundtrip:
  "\<forall>c \<in> set categorical_cols. \<forall>v. Some v \<in> set (map c df) \<longrightarrow>
     (let labels = StringIndexer_fit (map c df);
          idx = StringIndexer_transform labels (Some v)
      in \<exists>categorySize vec.
           OneHotEncoder_fit labels = Inr categorySize
           \<and> OneHotEncoder_transform categorySize idx = Inr vec
           \<and> decode_index vec = Some idx)"
proof (intro ballI allI impI)
  fix c :: "final_row \<Rightarrow> string option" and v
  assume seen: "Some v \<in> set (map c df)"
  let ?ls = "StringIndexer_fit (map c df)"
  from seen have mem: "v \<in> set ?ls"
    by (simp only: StringIndexer_fit_set mem_Collect_eq)
  then have less: "index_of v ?ls < length ?ls"
    by (rule index_of_less)
  from mem have "?ls \<noteq> []" by auto
  then have fit: "OneHotEncoder_fit ?ls = Inr (Suc (length ?ls))"
    by (simp add: OneHotEncoder_fit_eq)
  have idx: "StringIndexer_transform ?ls (Some v) = index_of v ?ls"
    using mem by (simp add: StringIndexer_transform_def)
  have "OneHotEncoder_transform (Suc (length ?ls)) (index_of v ?ls)
          = Inr (SparseVector (length ?ls) [index_of v ?ls] [1])"
    using less by (simp add: OneHotEncoder_transform_def)
  moreover have "decode_index (SparseVector (length ?ls) [index_of v ?ls] [1])
                   = Some (index_of v ?ls)"
    using less by (rule decode_one_hot)
  ultimately show
    "let labels = StringIndexer_fit (map c df);
         idx = StringIndexer_transform labels (Some v)
     in \<exists>categorySize vec.
          OneHotEncoder_fit labels = Inr categorySize
          \<and> OneHotEncoder_transform categorySize idx = Inr vec
          \<and> decode_index vec = Some idx"
    unfolding Let_def idx using fit by blast
qed

theorem C5_index_roundtrip_witness:
  "(\<lambda>r. gender (demo r)) \<in> set categorical_cols \<and>
   map (\<lambda>r. gender (demo r)) (df_final [scenario_demo] [scenario_visit] other_logs)
     = [Some ''M''] \<and>
   StringIndexer_transform (StringIndexer_fit [Some ''M'']) (Some ''M'') = 0 \<and>
   (\<exists>categorySize vec.
      OneHotEncoder_fit (StringIndexer_fit [Some ''M'']) = Inr categorySize
      \<and> OneHotEncoder_transform categorySize 0 = Inr vec
      \<and> decode_index vec = Some 0)"
proof -
  let ?F = "df_final [scenario_demo] [scenario_visit] other_logs"
  have c: "(\<lambda>r. gender (demo r)) \<in> set categorical_cols"
    by (simp add: categorical_cols_def)
  have col: "map (\<lambda>r. gender (demo r)) ?F = [Some ''M'']"
    by (simp add: scenario_other_final scenario_fields)
  have seen: "Some ''M'' \<in> set (map (\<lambda>r. gender (demo r)) ?F)"
    by (simp add: col)
  have idx: "StringIndexer_transform (StringIndexer_fit [Some ''M'']) (Some ''M'') = 0"
    by (simp add: StringIndexer_fit_def StringIndexer_transform_def non_null_Cons
        non_null_def List.map_filter_def)
  from C5_index_roundtrip [of ?F, THEN bspec, OF c, rule_format, OF seen] c col idx
  show ?thesis
    by (simp add: Let_def)
qed
section \<open>Properties of the balancer and the split\<close>

lemma map_snd_enumerate_rows: "map snd (enumerate_rows i xs) = xs"
  by (induction xs arbitrary: i) simp_all

lemma mset_enumerate_rows: "image_mset snd (mset (enumerate_rows i xs)) = mset xs"
  using map_snd_enumerate_rows [of i xs] by (metis mset_map)

lemma nextDouble_unit: "0 \<le> nextDouble b \<and> nextDouble b < 1"
proof -
  have "b mod 2 ^ 53 < (2::nat) ^ 53" by simp
  then have "real (b mod 2 ^ 53) < real ((2::nat) ^ 53)"
    by (simp only: of_nat_less_iff)
  then show ?thesis
    by (simp add: nextDouble_def)
qed

lemma mset_sample: "mset (sample fraction bits df) \<subseteq># mset df"
proof -
  let ?E = "enumerate_rows 0 df"
  let ?P = "\<lambda>(i, r). 0 \<le> nextDouble (bits i) \<and> nextDouble (bits i) < fraction"
  have "mset (filter ?P ?E) \<subseteq># mset ?E"
    by simp
  then have "image_mset snd (mset (filter ?P ?E)) \<subseteq># image_mset snd (mset ?E)"
    by (rule image_mset_subseteq_mono)
  then show ?thesis
    by (simp add: sample_def cell_sample_def mset_enumerate_rows del: mset_filter)
qed

lemma mset_orderBy_rand: "mset (orderBy_rand bits df) = mset df"
  by (simp add: orderBy_rand_def mset_enumerate_rows)

lemma distinct_sample: "distinct df \<Longrightarrow> distinct (sample fraction bits df)"
  unfolding sample_def cell_sample_def
  by (rule distinct_map_filter) (simp add: map_snd_enumerate_rows)

lemma mset_filter_partition:
  "mset (filter P xs) + mset (filter (\<lambda>x. \<not> P x) xs) = mset xs"
  by (induction xs) simp_all

lemma mset_filter_union:
  assumes "mset out = mset a + mset b"
  shows "mset (filter P out) = mset (filter P a) + mset (filter P b)"
  using assms by simp

lemma mset_cells:
  assumes "lb \<le> mid" and "\<forall>i. lb \<le> nextDouble (bits i) \<and> nextDouble (bits i) < ub"
  shows "mset (cell_sample lb mid bits df) + mset (cell_sample mid ub bits df) = mset df"
proof -
  let ?E = "enumerate_rows 0 df"
  let ?P = "\<lambda>(i, r). lb \<le> nextDouble (bits i) \<and> nextDouble (bits i) < mid"
  let ?Q = "\<lambda>(i, r). mid \<le> nextDouble (bits i) \<and> nextDouble (bits i) < ub"
  have "?Q x = (\<not> ?P x)" for x :: "nat \<times> 'a"
    using assms by (cases x) (auto simp: not_less)
  then have "filter ?Q ?E = filter (\<lambda>x. \<not> ?P x) ?E"
    by (intro filter_cong) simp_all
  then have "mset (filter ?P ?E) + mset (filter ?Q ?E) = mset ?E"
    by (simp only: mset_filter_partition)
  then have "image_mset snd (mset (filter ?P ?E) + mset (filter ?Q ?E)) = mset df"
    by (simp only: mset_enumerate_rows)
  then show ?thesis
    by (simp add: cell_sample_def)
qed

lemma mset_split_disjoint:
  assumes "mset a + mset b = mset c" and "distinct c"
  shows "set a \<inter> set b = {}"
proof -
  from assms(1) have "mset (a @ b) = mset c" by simp
  then have "distinct (a @ b) = distinct c"
    by (rule mset_eq_imp_distinct_iff)
  with assms(2) show ?thesis by simp
qed

lemma randomSplit_70_30:
  "randomSplit [0.7, 0.3] bits df =
     [cell_sample 0 0.7 bits (sort df), cell_sample 0.7 1 bits (sort df)]"
  by (simp add: randomSplit_def normalizedCumWeights_def Let_def)

text \<open>
  Claim C9. The balanced table has the minority rows of its input, each as often as
  the input has it, and its majority rows are rows of the input's majority class, none
  more often than in the input; when the input's rows are pairwise different, so are the
  output's: no row is drawn twice.
\<close>

theorem C9_balancer_keeps_minority:
  "mset (df_minor (df_balanced rng rand df_clustered)) = mset (df_minor df_clustered) \<and>
   mset (df_major (df_balanced rng rand df_clustered)) \<subseteq># mset (df_major df_clustered) \<and>
   (distinct df_clustered \<longrightarrow> distinct (df_balanced rng rand df_clustered))"
proof -
  let ?mj = "\<lambda>r. is_true (eq_lit (labelled_row.drop_off r) 0)"
  let ?mn = "\<lambda>r. is_true (eq_lit (labelled_row.drop_off r) 1)"
  let ?S = "df_major_sampled rng df_clustered"
  let ?M = "df_minor df_clustered"
  have excl: "\<not> (?mj r \<and> ?mn r)" for r :: "'a labelled_row_scheme"
    by (cases "labelled_row.drop_off r") (simp_all add: is_true_def eq_lit_def)
  have sub: "mset ?S \<subseteq># mset (df_major df_clustered)"
    unfolding df_major_sampled_def by (rule mset_sample)
  then have setS: "set ?S \<subseteq> set (df_major df_clustered)"
    by (rule set_mset_mono [of "mset ?S" "mset (df_major df_clustered)", simplified])
  then have S_major: "\<forall>r \<in> set ?S. ?mj r"
    by (auto simp: df_major_def)
  then have S_not_minor: "\<forall>r \<in> set ?S. \<not> ?mn r"
    using excl by blast
  have M_minor: "\<forall>r \<in> set ?M. ?mn r"
    by (simp add: df_minor_def)
  then have M_not_major: "\<forall>r \<in> set ?M. \<not> ?mj r"
    using excl by blast
  have out: "mset (df_balanced rng rand df_clustered) = mset ?S + mset ?M"
    by (simp add: df_balanced_def mset_orderBy_rand)
  have "filter ?mn ?S = []" "filter ?mn ?M = ?M"
    using S_not_minor M_minor by (simp_all add: filter_empty_conv filter_id_conv)
  then have minor: "mset (df_minor (df_balanced rng rand df_clustered)) = mset ?M"
    unfolding df_minor_def [of "df_balanced rng rand df_clustered"]
    using mset_filter_union [OF out, of ?mn] by simp
  have "filter ?mj ?S = ?S" "filter ?mj ?M = []"
    using S_major M_not_major by (simp_all add: filter_empty_conv filter_id_conv)
  then have "mset (df_major (df_balanced rng rand df_clustered)) = mset ?S"
    unfolding df_major_def [of "df_balanced rng rand df_clustered"]
    using mset_filter_union [OF out, of ?mj] by simp
  with sub have major: "mset (df_major (df_balanced rng rand df_clustered))
                          \<subseteq># mset (df_major df_clustered)"
    by simp
  have dist: "distinct (df_balanced rng rand df_clustered)" if d: "distinct df_clustered"
  proof -
    from d have "distinct ?S"
      unfolding df_major_sampled_def df_major_def by (intro distinct_sample distinct_filter)
    moreover from d have "distinct ?M"
      by (simp add: df_minor_def)
    moreover have "set ?S \<inter> set ?M = {}"
      using S_not_minor M_minor by blast
    ultimately have "distinct (?S @ ?M)" by simp
    moreover have "mset (df_balanced rng rand df_clustered) = mset (?S @ ?M)"
      by (simp add: out)
    ultimately show ?thesis
      using mset_eq_imp_distinct_iff by blast
  qed
  from minor major dist show ?thesis by blast
qed

theorem C9_balancer_keeps_minority_witness:
  "distinct [\<lparr> labelled_row.drop_off = Some 0 \<rparr>, \<lparr> labelled_row.drop_off = Some 1 \<rparr>] \<and>
   mset (df_minor (df_balanced (\<lambda>seed i. 0) (\<lambda>i. i)
                     [\<lparr> labelled_row.drop_off = Some 0 \<rparr>, \<lparr> labelled_row.drop_off = Some 1 \<rparr>]))
     = {# \<lparr> labelled_row.drop_off = Some 1 \<rparr> #} \<and>
   distinct (df_balanced (\<lambda>seed i. 0) (\<lambda>i. i)
               [\<lparr> labelled_row.drop_off = Some 0 \<rparr>, \<lparr> labelled_row.drop_off = Some 1 \<rparr>])"
proof -
  have d: "distinct [\<lparr> labelled_row.drop_off = Some 0 \<rparr>, \<lparr> labelled_row.drop_off = Some 1 \<rparr>]"
    by simp
  have m: "df_minor [\<lparr> labelled_row.drop_off = Some 0 \<rparr>, \<lparr> labelled_row.drop_off = Some 1 \<rparr>]
             = [\<lparr> labelled_row.drop_off = Some 1 \<rparr>]"
    by (simp add: df_minor_def is_true_def eq_lit_def)
  from C9_balancer_keeps_minority
         [of "\<lambda>seed i. 0" "\<lambda>i. i"
             "[\<lparr> labelled_row.drop_off = Some 0 \<rparr>, \<lparr> labelled_row.drop_off = Some 1 \<rparr>]"] d m
  show ?thesis by simp
qed

text \<open>
  Claim C10. Whatever the table and the draws of the seeded generator, the train set
  and the test set together hold every row of the table as often as the table does, so
  each row is in exactly one of them; when the rows are pairwise different the two sets
  are disjoint.
\<close>

theorem C10_split_partitions:
  "(case train_test rng df_ml_ready of
      (train, test) \<Rightarrow>
        mset train + mset test = mset df_ml_ready \<and>
        (distinct df_ml_ready \<longrightarrow> set train \<inter> set test = {}))"
proof -
  let ?train = "cell_sample 0 0.7 (rng 42) (sort df_ml_ready)"
  let ?test = "cell_sample 0.7 1 (rng 42) (sort df_ml_ready)"
  have tt: "train_test rng df_ml_ready = (?train, ?test)"
    by (simp add: train_test_def randomSplit_70_30)
  have "mset ?train + mset ?test = mset (sort df_ml_ready)"
    by (rule mset_cells) (simp_all add: nextDouble_unit)
  then have sum: "mset ?train + mset ?test = mset df_ml_ready"
    by simp
  then have "distinct df_ml_ready \<longrightarrow> set ?train \<inter> set ?test = {}"
    using mset_split_disjoint by blast
  with sum show ?thesis
    by (simp add: tt)
qed

theorem C10_split_partitions_witness:
  "distinct [3, 1, 2 :: int] \<and>
   train_test (\<lambda>seed i. i * 3 * 2 ^ 51) [3, 1, 2 :: int] = ([1, 3], [2]) \<and>
   (case train_test (\<lambda>seed i. i * 3 * 2 ^ 51) [3, 1, 2 :: int] of
      (train, test) \<Rightarrow>
        mset train + mset test = mset [3, 1, 2] \<and> set train \<inter> set test = {})"
proof -
  have draws: "nextDouble 0 = 0" "nextDouble 6755399441055744 = 3 / 4"
    "nextDouble 13510798882111488 = 1 / 2"
    by (simp_all add: nextDouble_def)
  have split: "train_test (\<lambda>seed i. i * 3 * 2 ^ 51) [3, 1, 2 :: int] = ([1, 3], [2])"
    by (simp add: train_test_def randomSplit_70_30 cell_sample_def draws)
  from C10_split_partitions
         [where rng = "\<lambda>seed i. i * 3 * 2 ^ 51" and df_ml_ready = "[3, 1, 2 :: int]"] split
  show ?thesis
    by (simp add: case_prod_unfold)
qed

end
